theory Spec2Isabelle
  imports Complex_Main "HOL-Library.Sublist" "HOL-Library.List_Lexorder"
begin

section \<open>Python values\<close>

text \<open>
  A Python \<open>str\<close> is a sequence of Unicode code points: slicing and \<open>len\<close> count
  code points. The model keeps that: a string is the list of its code points.
  \<open>lit\<close> turns an ASCII literal into such a list. Python floats are idealised as
  real numbers.
\<close>

type_synonym pystr = "nat list"

definition lit :: "string \<Rightarrow> pystr" where
  "lit s = map of_char s"

text \<open>The exceptions that can leave the functions modelled here.\<close>

datatype py_error =
    IndexError
  | JSONDecodeError
  | LibraryError pystr

text \<open>\<open>str(i)\<close> for a non-negative integer: its decimal digits.\<close>

function str_nat :: "nat \<Rightarrow> pystr" where
  "str_nat n = (if n < 10 then [48 + n] else str_nat (n div 10) @ [48 + n mod 10])"
  by pat_completeness auto
termination
  by (relation "measure id") auto

declare str_nat.simps [simp del]

text \<open>\<open>sep.join(parts)\<close>.\<close>

fun join :: "pystr \<Rightarrow> pystr list \<Rightarrow> pystr" where
  "join sep [] = []"
| "join sep [x] = x"
| "join sep (x # y # ys) = x @ sep @ join sep (y # ys)"

text \<open>
  \<open>str.strip()\<close> removes leading and trailing whitespace; \<open>py_isspace\<close> lists the
  code points for which \<open>str.isspace\<close> holds.
\<close>

definition py_isspace :: "nat \<Rightarrow> bool" where
  "py_isspace c \<longleftrightarrow>
     (9 \<le> c \<and> c \<le> 13) \<or> (28 \<le> c \<and> c \<le> 32) \<or> c = 133 \<or> c = 160 \<or> c = 5760
     \<or> (8192 \<le> c \<and> c \<le> 8202) \<or> c = 8232 \<or> c = 8233 \<or> c = 8239 \<or> c = 8287
     \<or> c = 12288"

definition strip :: "pystr \<Rightarrow> pystr" where
  "strip s = rev (dropWhile py_isspace (rev (dropWhile py_isspace s)))"

section \<open>Data model\<close>

text \<open>
  The metadata dictionary stored with a document (\<open>index_documents\<close> writes the
  keys name, category, lat, lon and rating). A field that is \<open>None\<close> here is a key
  absent from the dictionary.
\<close>

record metadata =
  md_name :: "pystr option"
  md_category :: "pystr option"
  md_lat :: "real option"
  md_lon :: "real option"
  md_rating :: "real option"

definition empty_metadata :: metadata where
  "empty_metadata = \<lparr>md_name = None, md_category = None, md_lat = None, md_lon = None,
     md_rating = None\<rparr>"

text \<open>An entry of the collection; its metadata may be missing altogether.\<close>

record entry =
  entry_id :: pystr
  entry_document :: pystr
  entry_metadata :: "metadata option"

text \<open>The dictionaries built by \<open>VectorStore.search\<close>.\<close>

record doc =
  document :: pystr
  metadata :: metadata
  distance :: real
  doc_id :: "pystr option"

section \<open>Context and fallback answer (\<open>rag/pipeline.py\<close>)\<close>

text \<open>
  \<open>build_context\<close>: the loop over \<open>enumerate(retrieved_docs, 1)\<close> appends one part
  per document; \<open>context_parts i docs\<close> is the list appended from counter \<open>i\<close> on.
\<close>

definition source_label :: "nat \<Rightarrow> pystr" where
  "source_label i = lit ''[Source '' @ str_nat i @ lit '']: ''"

fun context_parts :: "nat \<Rightarrow> doc list \<Rightarrow> pystr list" where
  "context_parts i [] = []"
| "context_parts i (d # ds) = (source_label i @ document d) # context_parts (Suc i) ds"

definition build_context :: "doc list \<Rightarrow> pystr" where
  "build_context retrieved_docs =
     (if retrieved_docs = [] then []
      else join [10, 10] (context_parts 1 retrieved_docs))"

definition no_information :: pystr where
  "no_information = lit ''I couldn't find relevant information to answer your question.''"

definition fallback_preamble :: pystr where
  "fallback_preamble = lit ''Based on the available information:'' @ [10, 10]"

definition fallback_answer :: "pystr \<Rightarrow> pystr \<Rightarrow> pystr" where
  "fallback_answer query context =
     (if context = [] then no_information
      else fallback_preamble @ take 1000 context @ lit ''...'')"

section \<open>The vector store (\<open>rag/vector_store.py\<close>)\<close>

text \<open>
  What \<open>collection.query\<close> returns: one row per query embedding. \<open>search\<close> asks
  for documents, metadatas and distances; a list that was not included is \<open>None\<close>.
\<close>

record query_result =
  ids :: "pystr list list"
  documents :: "pystr list list option"
  metadatas :: "metadata list list option"
  distances :: "real list list option"

text \<open>The result of the HTTP calls made by the language-model client.\<close>

datatype tags_outcome =
    TagsFailure pystr
  | TagsResponse int "pystr option list option"

datatype generate_outcome =
    GenerateFailure pystr
  | GenerateResponse "pystr option"

datatype stream_line = EmptyLine | InvalidLine | JsonLine "pystr option" bool

datatype stream_outcome = Stream "stream_line list" "pystr option"

text \<open>
  The collaborators outside the repository are parameters of the model:
  the embedding model, the nearest-neighbour query of the collection, the HTTP
  endpoints of the model server and the clock. \<open>tags_request n\<close> is the outcome of
  the \<open>n\<close>-th availability probe and \<open>clock n\<close> the \<open>n\<close>-th reading of
  \<open>time.time()\<close>. \<open>TagsFailure\<close>, \<open>GenerateFailure\<close> and the second component
  of \<open>Stream\<close> carry the text of a \<open>requests.RequestException\<close>;
  \<open>TagsResponse\<close> carries the status code and the \<open>name\<close> fields of the
  \<open>models\<close> list of the body, \<open>GenerateResponse\<close> the \<open>response\<close> field of the
  body, \<open>JsonLine r d\<close> the \<open>response\<close> and \<open>done\<close> fields of one streamed line.
\<close>

record env =
  get_embedding :: "pystr \<Rightarrow> py_error + real list"
  collection_query ::
    "entry list \<Rightarrow> real list \<Rightarrow> int \<Rightarrow> pystr option \<Rightarrow> py_error + query_result"
  tags_request :: "nat \<Rightarrow> tags_outcome"
  post_generate :: "pystr \<Rightarrow> pystr \<Rightarrow> generate_outcome"
  post_stream :: "pystr \<Rightarrow> pystr \<Rightarrow> stream_outcome"
  clock :: "nat \<Rightarrow> real"

definition nth_py :: "'a list \<Rightarrow> nat \<Rightarrow> py_error + 'a" where
  "nth_py xs i = (if i < length xs then Inr (xs ! i) else Inl IndexError)"

text \<open>\<open>rows[0][i] if rows else dflt\<close>\<close>

definition lookup_row :: "'a list list option \<Rightarrow> nat \<Rightarrow> 'a \<Rightarrow> py_error + 'a" where
  "lookup_row rows i dflt =
     (case rows of None \<Rightarrow> Inr dflt | Some [] \<Rightarrow> Inr dflt | Some (row # _) \<Rightarrow> nth_py row i)"

definition format_result :: "query_result \<Rightarrow> nat \<Rightarrow> pystr \<Rightarrow> py_error + doc" where
  "format_result results i d =
     (case lookup_row (metadatas results) i empty_metadata of
        Inl e \<Rightarrow> Inl e
      | Inr m \<Rightarrow>
          (case lookup_row (distances results) i 0 of
             Inl e \<Rightarrow> Inl e
           | Inr dv \<Rightarrow>
               (case (case ids results of
                        [] \<Rightarrow> Inr None
                      | row # _ \<Rightarrow> map_sum id Some (nth_py row i)) of
                  Inl e \<Rightarrow> Inl e
                | Inr di \<Rightarrow>
                    Inr \<lparr>document = d, metadata = m, distance = dv, doc_id = di\<rparr>)))"

fun format_results :: "query_result \<Rightarrow> nat \<Rightarrow> pystr list \<Rightarrow> py_error + doc list" where
  "format_results results i [] = Inr []"
| "format_results results i (d # ds) =
     (case format_result results i d of
        Inl e \<Rightarrow> Inl e
      | Inr x \<Rightarrow>
          (case format_results results (Suc i) ds of
             Inl e \<Rightarrow> Inl e
           | Inr xs \<Rightarrow> Inr (x # xs)))"

definition search ::
  "env \<Rightarrow> entry list \<Rightarrow> pystr \<Rightarrow> int \<Rightarrow> pystr option \<Rightarrow> py_error + doc list" where
  "search w coll query top_k category_filter =
     (case get_embedding w query of
        Inl e \<Rightarrow> Inl e
      | Inr query_embedding \<Rightarrow>
          (let where_clause =
                 (case category_filter of
                    None \<Rightarrow> None
                  | Some c \<Rightarrow> if c = [] then None else Some c)
           in case collection_query w coll query_embedding top_k where_clause of
                Inl e \<Rightarrow> Inl e
              | Inr results \<Rightarrow>
                  (case documents results of
                     None \<Rightarrow> Inr []
                   | Some [] \<Rightarrow> Inr []
                   | Some (row # _) \<Rightarrow> format_results results 0 row)))"





section \<open>The language-model client (\<open>rag/llm.py\<close>)\<close>

definition OLLAMA_MODEL :: pystr where
  "OLLAMA_MODEL = lit ''gemma:7b''"

fun model_listed :: "pystr \<Rightarrow> pystr list \<Rightarrow> bool" where
  "model_listed model [] = False"
| "model_listed model (name # names) =
     (if name = model \<or> prefix (takeWhile (\<lambda>c. c \<noteq> 58) model) name then True
      else model_listed model names)"

definition is_available :: "pystr \<Rightarrow> tags_outcome \<Rightarrow> bool" where
  "is_available model outcome =
     (case outcome of
        TagsFailure e \<Rightarrow> False
      | TagsResponse status_code models \<Rightarrow>
          if status_code = 200
          then model_listed model
                 (map (\<lambda>m. case m of None \<Rightarrow> [] | Some n \<Rightarrow> n)
                    (case models of None \<Rightarrow> [] | Some ms \<Rightarrow> ms))
          else False)"

definition rag_prompt_head :: pystr where
  "rag_prompt_head =
     lit ''You are a friendly and helpful tourist guide for Cz'' @ [281]
       @ lit ''stochowa, Poland.'' @ [10, 10]
     @ lit ''INSTRUCTIONS:'' @ [10]
     @ lit ''1. Answer the question using ONLY the information from the Context below.''
     @ [10]
     @ lit ''2. If the context contains relevant information, provide a helpful answer with specific details (names, addresses, ratings).''
     @ [10]
     @ lit ''3. If the context contains RELATED information (e.g., user asks about ''
     @ [34] @ lit ''Jasna G'' @ [243] @ lit ''ra'' @ [34]
     @ lit '' and context mentions '' @ [34] @ lit ''Wie'' @ [380] @ lit ''a Jasnog''
     @ [243] @ lit ''rska'' @ [34]
     @ lit '' or related sites), use that information and explain the connection.''
     @ [10]
     @ lit ''4. Be conversational and helpful. Recommend the best options based on ratings.''
     @ [10]
     @ lit ''5. If you truly cannot find relevant information, politely say so and suggest what IS available.''
     @ [10, 10]
     @ lit ''Context:'' @ [10]"

definition build_rag_prompt :: "pystr \<Rightarrow> pystr \<Rightarrow> pystr" where
  "build_rag_prompt question context =
     rag_prompt_head @ context @ [10, 10] @ lit ''Question: '' @ question @ [10, 10]
       @ lit ''Answer:''"

definition full_prompt :: "pystr \<Rightarrow> pystr \<Rightarrow> pystr" where
  "full_prompt prompt context =
     (if context \<noteq> [] then build_rag_prompt prompt context else prompt)"

definition generate :: "env \<Rightarrow> pystr \<Rightarrow> pystr \<Rightarrow> pystr \<Rightarrow> pystr" where
  "generate w model prompt context =
     (case post_generate w model (full_prompt prompt context) of
        GenerateFailure e \<Rightarrow> lit ''Error communicating with Ollama: '' @ e
      | GenerateResponse r \<Rightarrow> strip (case r of None \<Rightarrow> [] | Some t \<Rightarrow> t))"



section \<open>The pipeline (\<open>rag/pipeline.py\<close>)\<close>

text \<open>
  The state of a \<open>RAGPipeline\<close>: the collection held by its vector store, the
  model name of its client, and \<open>_llm_available\<close>. \<open>probes\<close> counts the calls of
  \<open>is_available\<close> made so far and \<open>ticks\<close> the readings of the clock.
\<close>

record pipeline =
  collection :: "entry list"
  llm_model :: pystr
  cached_llm_available :: "bool option"
  probes :: nat
  ticks :: nat

definition TOP_K_RESULTS :: int where
  "TOP_K_RESULTS = 3"

definition new_pipeline :: "entry list \<Rightarrow> pipeline" where
  "new_pipeline coll =
     \<lparr>collection = coll, llm_model = OLLAMA_MODEL, cached_llm_available = None,
      probes = 0, ticks = 0\<rparr>"

definition check_llm :: "env \<Rightarrow> pipeline \<Rightarrow> bool \<times> pipeline" where
  "check_llm w s =
     (case cached_llm_available s of
        None \<Rightarrow>
          (let b = is_available (llm_model s) (tags_request w (probes s))
           in (b, s\<lparr>cached_llm_available := Some b, probes := Suc (probes s)\<rparr>))
      | Some b \<Rightarrow> (b, s))"

definition retrieve ::
  "env \<Rightarrow> pipeline \<Rightarrow> pystr \<Rightarrow> int \<Rightarrow> pystr option \<Rightarrow> py_error + doc list" where
  "retrieve w s query top_k category = search w (collection s) query top_k category"

definition generate_answer :: "env \<Rightarrow> pipeline \<Rightarrow> pystr \<Rightarrow> pystr \<Rightarrow> pystr \<times> pipeline" where
  "generate_answer w s query context =
     (case check_llm w s of
        (available, s') \<Rightarrow>
          if \<not> available then (fallback_answer query context, s')
          else (generate w (llm_model s') query context, s'))"

text \<open>\<open>time.time()\<close>\<close>

definition now :: "env \<Rightarrow> pipeline \<Rightarrow> real \<times> pipeline" where
  "now w s = (clock w (ticks s), s\<lparr>ticks := Suc (ticks s)\<rparr>)"

text \<open>\<open>round(x, 2)\<close>: to two decimals, ties to the even neighbour.\<close>

definition round_half_even :: "real \<Rightarrow> int" where
  "round_half_even x =
     (let f = \<lfloor>x\<rfloor>; d = x - of_int f
      in if d < 1 / 2 then f else if 1 / 2 < d then f + 1 else if even f then f else f + 1)"

definition py_round2 :: "real \<Rightarrow> real" where
  "py_round2 x = of_int (round_half_even (x * 100)) / 100"

text \<open>The entries of the \<open>sources\<close> lists and the result of \<open>query\<close>.\<close>

record source_info =
  src_name :: pystr
  src_category :: pystr
  src_rating :: real

record scored_source = source_info +
  relevance_score :: real

record query_metadata =
  total_time_ms :: real
  retrieval_time_ms :: real
  generation_time_ms :: real
  documents_retrieved :: nat
  llm_available :: bool

text \<open>\<open>sources = None\<close> is a response without the key \<open>sources\<close>.\<close>

record response =
  answer :: pystr
  response_metadata :: query_metadata
  sources :: "scored_source list option"

definition query_source :: "doc \<Rightarrow> scored_source" where
  "query_source d =
     \<lparr>src_name = (case md_name (metadata d) of None \<Rightarrow> lit ''Unknown'' | Some n \<Rightarrow> n),
      src_category = (case md_category (metadata d) of None \<Rightarrow> lit ''N/A'' | Some c \<Rightarrow> c),
      src_rating = (case md_rating (metadata d) of None \<Rightarrow> 0 | Some r \<Rightarrow> r),
      relevance_score = 1 - distance d\<rparr>"


text \<open>
  \<open>query\<close> returns the response, or the exception that left it, and the state
  afterwards.
\<close>

definition query ::
  "env \<Rightarrow> pipeline \<Rightarrow> pystr \<Rightarrow> int \<Rightarrow> pystr option \<Rightarrow> bool
     \<Rightarrow> (py_error + response) \<times> pipeline" where
  "query w s question top_k category return_sources =
     (case now w s of (start_time, s1) \<Rightarrow>
      case now w s1 of (retrieval_start, s2) \<Rightarrow>
      case retrieve w s2 question top_k category of
        Inl e \<Rightarrow> (Inl e, s2)
      | Inr retrieved_docs \<Rightarrow>
          (case now w s2 of (t3, s3) \<Rightarrow>
           let retrieval_time = t3 - retrieval_start;
               context = build_context retrieved_docs
           in case now w s3 of (generation_start, s4) \<Rightarrow>
              case generate_answer w s4 question context of (ans, s5) \<Rightarrow>
              case now w s5 of (t6, s6) \<Rightarrow>
              let generation_time = t6 - generation_start
              in case now w s6 of (t7, s7) \<Rightarrow>
                 let total_time = t7 - start_time
                 in case check_llm w s7 of (available, s8) \<Rightarrow>
                    (Inr \<lparr>answer = ans,
                          response_metadata =
                            \<lparr>total_time_ms = py_round2 (total_time * 1000),
                             retrieval_time_ms = py_round2 (retrieval_time * 1000),
                             generation_time_ms = py_round2 (generation_time * 1000),
                             documents_retrieved = length retrieved_docs,
                             llm_available = available\<rparr>,
                          sources =
                            (if return_sources then Some (map query_source retrieved_docs)
                             else None)\<rparr>,
                     s8)))"

text \<open>The events of \<open>query_stream\<close>, with their payloads.\<close>

datatype event =
    is_sources: Sources "source_info list"
  | is_answer: Answer pystr
  | is_done: Done nat






section \<open>The shape of an event sequence\<close>



section \<open>Sample inputs\<close>

definition sample_metadata :: metadata where
  "sample_metadata =
     \<lparr>md_name = Some (lit ''Jasna Gora''), md_category = Some (lit ''religious_site''),
      md_lat = Some 50, md_lon = Some 19, md_rating = Some 5\<rparr>"

definition sample_entry :: "pystr \<Rightarrow> pystr \<Rightarrow> metadata option \<Rightarrow> entry" where
  "sample_entry i text m = \<lparr>entry_id = i, entry_document = text, entry_metadata = m\<rparr>"

definition sample_collection :: "entry list" where
  "sample_collection = [sample_entry (lit ''1'') (lit ''abc'') (Some sample_metadata)]"

text \<open>A collection query that returns every entry, each at distance \<open>3/2\<close>.\<close>

definition list_all ::
  "entry list \<Rightarrow> real list \<Rightarrow> int \<Rightarrow> pystr option \<Rightarrow> py_error + query_result" where
  "list_all coll v n wh =
     Inr \<lparr>ids = [map entry_id coll],
          documents = Some [map entry_document coll],
          metadatas =
            Some [map (\<lambda>e. case entry_metadata e of None \<Rightarrow> empty_metadata | Some m \<Rightarrow> m)
                    coll],
          distances = Some [map (\<lambda>e. 3 / 2) coll]\<rparr>"

definition sample_env :: "tags_outcome \<Rightarrow> generate_outcome \<Rightarrow> stream_outcome \<Rightarrow> env" where
  "sample_env tags gen str =
     \<lparr>get_embedding = (\<lambda>q. Inr []), collection_query = list_all,
      tags_request = (\<lambda>n. tags), post_generate = (\<lambda>m p. gen),
      post_stream = (\<lambda>m p. str), clock = (\<lambda>n. real n)\<rparr>"

definition offline :: tags_outcome where
  "offline = TagsFailure (lit ''Connection refused'')"


text \<open>The model server is down.\<close>

definition offline_env :: env where
  "offline_env = sample_env offline (GenerateFailure (lit ''Connection refused'')) (Stream [] (Some (lit ''Connection refused'')))"





text \<open>What \<open>search\<close> makes of the one entry of \<open>sample_collection\<close>.\<close>

definition sample_match :: doc where
  "sample_match =
     \<lparr>document = lit ''abc'', metadata = sample_metadata, distance = 3 / 2,
      doc_id = Some (lit ''1'')\<rparr>"





section \<open>Properties of the context\<close>





section \<open>Properties of the pipeline\<close>

lemma retrieve_ticks: "retrieve w (s\<lparr>ticks := n\<rparr>) q k c = retrieve w s q k c"
  by (simp add: retrieve_def)

lemma check_llm_ticks:
  "check_llm w (s\<lparr>ticks := n\<rparr>) = (fst (check_llm w s), (snd (check_llm w s))\<lparr>ticks := n\<rparr>)"
  by (simp add: check_llm_def Let_def split: option.splits)

lemma check_llm_cached:
  "cached_llm_available (snd (check_llm w s)) = Some (fst (check_llm w s))"
  by (simp add: check_llm_def Let_def split: option.splits)

lemma check_llm_hit:
  "cached_llm_available s = Some b \<Longrightarrow> check_llm w s = (b, s)"
  by (simp add: check_llm_def)

lemma check_llm_frame:
  "llm_model (snd (check_llm w s)) = llm_model s"
  "collection (snd (check_llm w s)) = collection s"
  "ticks (snd (check_llm w s)) = ticks s"
  by (simp_all add: check_llm_def Let_def split: option.splits)

lemma query_unfold:
  "query w s q k c rs =
     (case retrieve w s q k c of
        Inl e \<Rightarrow> (Inl e, s\<lparr>ticks := ticks s + 2\<rparr>)
      | Inr docs \<Rightarrow>
          (Inr \<lparr>answer =
                  (if fst (check_llm w s) then generate w (llm_model s) q (build_context docs)
                   else fallback_answer q (build_context docs)),
                response_metadata =
                  \<lparr>total_time_ms =
                     py_round2 ((clock w (ticks s + 5) - clock w (ticks s)) * 1000),
                   retrieval_time_ms =
                     py_round2 ((clock w (ticks s + 2) - clock w (ticks s + 1)) * 1000),
                   generation_time_ms =
                     py_round2 ((clock w (ticks s + 4) - clock w (ticks s + 3)) * 1000),
                   documents_retrieved = length docs,
                   llm_available = fst (check_llm w s)\<rparr>,
                sources = (if rs then Some (map query_source docs) else None)\<rparr>,
           (snd (check_llm w s))\<lparr>ticks := ticks s + 6\<rparr>))"
proof (cases "retrieve w s q k c")
  case (Inl e)
  then show ?thesis
    by (simp add: query_def now_def retrieve_ticks)
next
  case (Inr docs)
  obtain b s' where c: "check_llm w s = (b, s')" by (cases "check_llm w s")
  have hit: "cached_llm_available s' = Some b"
    using check_llm_cached [of w s] c by simp
  have m: "llm_model s' = llm_model s"
    using check_llm_frame(1) [of w s] c by simp
  have c2: "check_llm w s' = (b, s')"
    by (rule check_llm_hit [OF hit])
  have t: "ticks s' = ticks s"
    using check_llm_frame(3) [of w s] c by simp
  show ?thesis
    using Inr
    by (simp add: query_def now_def retrieve_ticks generate_answer_def check_llm_ticks
        c c2 m t Let_def numeral_eq_Suc)
qed

lemma source_label_nonempty: "source_label i \<noteq> []"
  by (simp add: source_label_def lit_def)

lemma build_context_empty_iff: "build_context docs = [] \<longleftrightarrow> docs = []"
proof (cases docs)
  case Nil
  then show ?thesis by (simp add: build_context_def)
next
  case (Cons d ds)
  then show ?thesis
    by (cases ds) (simp_all add: build_context_def source_label_nonempty)
qed

section \<open>The sample inputs evaluated\<close>

lemma sample_retrieve:
  "get_embedding w q = Inr v \<Longrightarrow> collection_query w = list_all \<Longrightarrow>
   retrieve w (new_pipeline sample_collection) q k c = Inr [sample_match]"
  by (simp add: retrieve_def search_def new_pipeline_def sample_collection_def
      list_all_def sample_entry_def format_result_def lookup_row_def nth_py_def sample_match_def
      split: option.splits)

lemma offline_retrieve:
  "retrieve offline_env (new_pipeline sample_collection) q k c = Inr [sample_match]"
  by (rule sample_retrieve [of _ _ "[]"]) (simp_all add: offline_env_def sample_env_def)

lemma offline_check: "\<not> fst (check_llm offline_env (new_pipeline coll))"
  by (simp add: check_llm_def new_pipeline_def offline_env_def sample_env_def offline_def
      is_available_def)

lemma sample_context: "build_context [sample_match] = lit ''[Source 1]: abc''"
  by (simp add: build_context_def source_label_def str_nat.simps lit_def sample_match_def)









section \<open>The fallback answer\<close>

text \<open>
  C1, amended. When retrieval returns documents with a non-empty context and the
  availability check reports the language model unreachable, the answer of \<open>query\<close>
  is the fixed preamble, then the first 1000 characters of the context (all of it when
  it is shorter), then the fixed suffix \<open>...\<close>.
\<close>

theorem fallback_answer_excerpt:
  assumes "retrieve w s question top_k category = Inr docs"
    and "build_context docs \<noteq> []"
    and "\<not> fst (check_llm w s)"
  shows "map_sum id answer (fst (query w s question top_k category return_sources)) =
           Inr (fallback_preamble @ take 1000 (build_context docs) @ lit ''...'')"
  using assms by (simp add: query_unfold fallback_answer_def)

theorem fallback_answer_excerpt_witness:
  "retrieve offline_env (new_pipeline sample_collection) (lit ''q'') 3 None = Inr [sample_match]
   \<and> build_context [sample_match] \<noteq> []
   \<and> \<not> fst (check_llm offline_env (new_pipeline sample_collection))
   \<and> map_sum id answer
        (fst (query offline_env (new_pipeline sample_collection) (lit ''q'') 3 None False)) =
       Inr (lit ''Based on the available information:'' @ [10, 10]
              @ lit ''[Source 1]: abc...'')"
proof -
  have n: "build_context [sample_match] \<noteq> []"
    by (simp add: build_context_empty_iff)
  show ?thesis
    using fallback_answer_excerpt [OF offline_retrieve n offline_check, of "lit ''q''" 3 None False]
      offline_retrieve [of "lit ''q''" 3 None] n offline_check [of sample_collection]
    by (simp add: sample_context fallback_preamble_def lit_def)
qed

theorem fallback_answer_excerpt_counterexample:
  "retrieve offline_env (new_pipeline sample_collection) (lit ''q'') 3 None = Inr [sample_match]
   \<and> build_context [sample_match] = lit ''[Source 1]: abc''
   \<and> \<not> fst (check_llm offline_env (new_pipeline sample_collection))
   \<and> map_sum id answer
        (fst (query offline_env (new_pipeline sample_collection) (lit ''q'') 3 None False)) \<noteq>
       Inr (fallback_preamble @ take 1000 (build_context [sample_match]))"
  using offline_retrieve [of "lit ''q''" 3 None] offline_check [of sample_collection]
  by (simp add: query_unfold fallback_answer_def sample_context lit_def)

section \<open>Empty index, failing collaborators\<close>







section \<open>Sources and metadata of a result\<close>

text \<open>
  C5. When retrieval returns, the \<open>sources\<close> list of \<open>query\<close> with
  \<open>return_sources = True\<close> has one entry per retrieved match, in order, and the
  \<open>relevance_score\<close> of each entry is \<open>1 - distance\<close> of its match, whatever the
  distance is: nothing is clamped.
\<close>

theorem relevance_score_one_minus_distance:
  assumes "retrieve w s question top_k category = Inr docs"
  shows "\<exists>srcs. map_sum id sources (fst (query w s question top_k category True)) =
                  Inr (Some srcs)
           \<and> length srcs = length docs
           \<and> (\<forall>i<length docs. relevance_score (srcs ! i) = 1 - distance (docs ! i))"
  using assms by (simp add: query_unfold query_source_def)

theorem relevance_score_one_minus_distance_witness:
  "retrieve offline_env (new_pipeline sample_collection) (lit ''q'') 3 None = Inr [sample_match]
   \<and> map_sum id (map_option (map relevance_score) \<circ> sources)
        (fst (query offline_env (new_pipeline sample_collection) (lit ''q'') 3 None True)) =
       Inr (Some [- 1 / 2])
   \<and> distance sample_match = 3 / 2"
  using relevance_score_one_minus_distance [OF offline_retrieve, of "lit ''q''" 3 None]
    offline_retrieve [of "lit ''q''" 3 None]
  by (auto simp: sample_match_def query_unfold query_source_def)





section \<open>The event sequence of the streaming query\<close>








section \<open>The cached availability\<close>












section \<open>Categories\<close>






end
